theory Spec2Isabelle
  imports Complex_Main "HOL-Library.Stream" "HOL-Library.AList" "HOL-Library.Sublist"
begin

section \<open>Virus population dynamics: the data model\<close>

text \<open>
  A shallow embedding of \<^verbatim>\<open>Modelling_Virus_Population_Growth.py\<close>.

  \<^item> Python floats (probabilities, the population density) are modelled as \<^typ>\<open>real\<close>;
    every comparison of the source is kept with its own operator (\<open>>=\<close> or \<open>>\<close>).
  \<^item> The ambient generator \<^verbatim>\<open>random.random()\<close> is an explicit, infinite stream of
    draws that every stochastic operation takes and returns; one call consumes the head.
  \<^item> A raised exception is the \<open>Inl\<close> branch of a sum.
  \<^item> A dict is an association list in insertion order; \<^verbatim>\<open>d[k] = v\<close> is
    \<^const>\<open>AList.update\<close> (overwrite in place, or append a new key) and
    \<^verbatim>\<open>d.get(k)\<close> is \<^const>\<open>map_of\<close>, with \<open>None\<close> for a missing key.
\<close>

datatype error = NoChildException | ZeroDivisionError

type_synonym rng = "real stream"

text \<open>The stream holds only values that \<^verbatim>\<open>random.random()\<close> can return: \<open>0 \<le> x < 1\<close>.\<close>

definition unit_draws :: "rng \<Rightarrow> bool" where
  "unit_draws rs = (\<forall>x \<in> sset rs. 0 \<le> x \<and> x < 1)"

record SimpleVirus =
  maxBirthProb :: real
  clearProb :: real

record ResistantVirus = SimpleVirus +
  resistance :: "(string \<times> bool) list"
  mutProb :: real

record 'v Patient =
  viruses :: "'v list"
  maxPop :: int

record TreatedPatient = "ResistantVirus Patient" +
  presDrugs :: "string list"

section \<open>SimpleVirus\<close>

text \<open>\<^verbatim>\<open>doesClear\<close>: \<^verbatim>\<open>if self.getClearProb() >= random.random(): return True else: return False\<close>.
  ResistantVirus inherits it, so it is defined on the record scheme.\<close>

definition doesClear :: "'a SimpleVirus_scheme \<Rightarrow> rng \<Rightarrow> bool \<times> rng" where
  "doesClear v rs = (if clearProb v \<ge> shd rs then (True, stl rs) else (False, stl rs))"

text \<open>\<^verbatim>\<open>SimpleVirus.reproduce(popDensity)\<close>.\<close>

definition reproduce :: "SimpleVirus \<Rightarrow> real \<Rightarrow> rng \<Rightarrow> (error + SimpleVirus) \<times> rng" where
  "reproduce v popDensity rs =
     (if maxBirthProb v * (1 - popDensity) \<ge> shd rs
      then (Inr \<lparr>maxBirthProb = maxBirthProb v, clearProb = clearProb v\<rparr>, stl rs)
      else (Inl NoChildException, stl rs))"

section \<open>ResistantVirus\<close>

text \<open>\<^verbatim>\<open>isResistantTo(drug)\<close>: \<^verbatim>\<open>return self.getResistances().get(drug)\<close>.\<close>

definition isResistantTo :: "ResistantVirus \<Rightarrow> string \<Rightarrow> bool option" where
  "isResistantTo v drug = map_of (resistance v) drug"

text \<open>The gate loop of \<^verbatim>\<open>ResistantVirus.reproduce\<close>: \<open>resistant\<close> starts True and becomes
  False (with a break) at the first active drug whose entry \<^verbatim>\<open>.get(drug) == False\<close>.\<close>

fun resistant_to_all :: "(string \<times> bool) list \<Rightarrow> string list \<Rightarrow> bool" where
  "resistant_to_all res [] = True"
| "resistant_to_all res (drug # activeDrugs) =
     (if map_of res drug = Some False then False else resistant_to_all res activeDrugs)"

text \<open>The loop over \<^verbatim>\<open>self.resistance.items()\<close> that fills \<^verbatim>\<open>new_res\<close>, one draw per item.\<close>

fun new_resistances ::
  "real \<Rightarrow> (string \<times> bool) list \<Rightarrow> (string \<times> bool) list \<Rightarrow> rng \<Rightarrow> (string \<times> bool) list \<times> rng" where
  "new_resistances mp [] new_res rs = (new_res, rs)"
| "new_resistances mp (drug # items) new_res rs =
     (if snd drug = True then
        (if (1 - mp) > shd rs
         then new_resistances mp items (AList.update (fst drug) True new_res) (stl rs)
         else new_resistances mp items (AList.update (fst drug) False new_res) (stl rs))
      else
        (if mp > shd rs
         then new_resistances mp items (AList.update (fst drug) True new_res) (stl rs)
         else new_resistances mp items (AList.update (fst drug) False new_res) (stl rs)))"

text \<open>\<^verbatim>\<open>ResistantVirus.reproduce(popDensity, activeDrugs)\<close>. The \<^verbatim>\<open>and\<close> short-circuits: a
  virus that fails the gate draws no random number.\<close>

definition reproduceR ::
  "ResistantVirus \<Rightarrow> real \<Rightarrow> string list \<Rightarrow> rng \<Rightarrow> (error + ResistantVirus) \<times> rng" where
  "reproduceR v popDensity activeDrugs rs =
     (if resistant_to_all (resistance v) activeDrugs = True then
        (if maxBirthProb v * (1 - popDensity) \<ge> shd rs then
           (case new_resistances (mutProb v) (resistance v) [] (stl rs) of
              (new_res, rs') \<Rightarrow>
                (Inr \<lparr>maxBirthProb = maxBirthProb v, clearProb = clearProb v,
                      resistance = new_res, mutProb = mutProb v\<rparr>, rs'))
         else (Inl NoChildException, stl rs))
      else (Inl NoChildException, rs))"

section \<open>Patient and TreatedPatient\<close>

text \<open>The first loop of \<^verbatim>\<open>update\<close>: append every virus whose \<^verbatim>\<open>doesClear() == False\<close>.\<close>

fun surviving_loop ::
  "'a SimpleVirus_scheme list \<Rightarrow> 'a SimpleVirus_scheme list \<Rightarrow> rng
     \<Rightarrow> 'a SimpleVirus_scheme list \<times> rng" where
  "surviving_loop [] surviving_virus rs = (surviving_virus, rs)"
| "surviving_loop (virus # vs) surviving_virus rs =
     (case doesClear virus rs of
        (c, rs') \<Rightarrow>
          if c = False then surviving_loop vs (surviving_virus @ [virus]) rs'
          else surviving_loop vs surviving_virus rs')"

text \<open>The second loop of \<^verbatim>\<open>Patient.update\<close>: \<^verbatim>\<open>try: new_virus.append(virus.reproduce(popDensity))
  except NoChildException: pass\<close>. Any other exception would leave the loop.\<close>

fun reproduce_loop ::
  "SimpleVirus list \<Rightarrow> real \<Rightarrow> SimpleVirus list \<Rightarrow> rng \<Rightarrow> (error + SimpleVirus list) \<times> rng" where
  "reproduce_loop [] popDensity new_virus rs = (Inr new_virus, rs)"
| "reproduce_loop (virus # vs) popDensity new_virus rs =
     (case reproduce virus popDensity rs of
        (Inr child, rs') \<Rightarrow> reproduce_loop vs popDensity (new_virus @ [child]) rs'
      | (Inl NoChildException, rs') \<Rightarrow> reproduce_loop vs popDensity new_virus rs'
      | (Inl e, rs') \<Rightarrow> (Inl e, rs'))"

fun reproduceR_loop ::
  "ResistantVirus list \<Rightarrow> real \<Rightarrow> string list \<Rightarrow> ResistantVirus list \<Rightarrow> rng
     \<Rightarrow> (error + ResistantVirus list) \<times> rng" where
  "reproduceR_loop [] popDensity drugs new_virus rs = (Inr new_virus, rs)"
| "reproduceR_loop (virus # vs) popDensity drugs new_virus rs =
     (case reproduceR virus popDensity drugs rs of
        (Inr child, rs') \<Rightarrow> reproduceR_loop vs popDensity drugs (new_virus @ [child]) rs'
      | (Inl NoChildException, rs') \<Rightarrow> reproduceR_loop vs popDensity drugs new_virus rs'
      | (Inl e, rs') \<Rightarrow> (Inl e, rs'))"

text \<open>\<^verbatim>\<open>Patient.update\<close>. The object is mutated in place, so the patient is returned on
  every path; a raised exception leaves it as it was. \<^verbatim>\<open>len(..)/float(maxPop)\<close> raises
  ZeroDivisionError when \<open>maxPop\<close> is 0.\<close>

definition update ::
  "SimpleVirus Patient \<Rightarrow> rng \<Rightarrow> (error + int) \<times> SimpleVirus Patient \<times> rng" where
  "update p rs =
     (case surviving_loop (viruses p) [] rs of
        (surviving_virus, rs1) \<Rightarrow>
          if maxPop p = 0 then (Inl ZeroDivisionError, p, rs1)
          else
            (case reproduce_loop surviving_virus
                    (real (length surviving_virus) / real_of_int (maxPop p)) [] rs1 of
               (Inl e, rs2) \<Rightarrow> (Inl e, p, rs2)
             | (Inr new_virus, rs2) \<Rightarrow>
                 (Inr (int (length (new_virus @ surviving_virus))),
                  p\<lparr>viruses := new_virus @ surviving_virus\<rparr>, rs2)))"

text \<open>\<^verbatim>\<open>TreatedPatient.update\<close>: the same, with \<^verbatim>\<open>self.getPrescriptions()\<close> passed on.\<close>

definition updateT ::
  "TreatedPatient \<Rightarrow> rng \<Rightarrow> (error + int) \<times> TreatedPatient \<times> rng" where
  "updateT p rs =
     (case surviving_loop (viruses p) [] rs of
        (surviving_virus, rs1) \<Rightarrow>
          if maxPop p = 0 then (Inl ZeroDivisionError, p, rs1)
          else
            (case reproduceR_loop surviving_virus
                    (real (length surviving_virus) / real_of_int (maxPop p))
                    (presDrugs p) [] rs1 of
               (Inl e, rs2) \<Rightarrow> (Inl e, p, rs2)
             | (Inr new_virus, rs2) \<Rightarrow>
                 (Inr (int (length (new_virus @ surviving_virus))),
                  p\<lparr>viruses := new_virus @ surviving_virus\<rparr>, rs2)))"

section \<open>The time step as the specification words it\<close>

text \<open>
  The specification describes one time step as three phases. These definitions follow its
  words, not the loops of the source, and are compared with \<^const>\<open>update\<close> and
  \<^const>\<open>updateT\<close> below.

  Survival phase: for every current particle evaluate \<open>clears()\<close>; retain exactly the
  particles for which it returns false.
\<close>

fun survival_phase ::
  "'a SimpleVirus_scheme list \<Rightarrow> rng \<Rightarrow> 'a SimpleVirus_scheme list \<times> rng" where
  "survival_phase [] rs = ([], rs)"
| "survival_phase (v # vs) rs =
     (case doesClear v rs of
        (cleared, rs') \<Rightarrow>
          (case survival_phase vs rs' of
             (survivors, rs'') \<Rightarrow> (if cleared then survivors else v # survivors, rs'')))"

text \<open>Reproduction phase: for every survivor make one attempt (whose density is already
  fixed in \<open>attempt\<close>) and collect the successful offspring; a failed attempt contributes
  nothing.\<close>

fun reproduction_phase ::
  "('v \<Rightarrow> rng \<Rightarrow> (error + 'v) \<times> rng) \<Rightarrow> 'v list \<Rightarrow> rng \<Rightarrow> 'v list \<times> rng" where
  "reproduction_phase attempt [] rs = ([], rs)"
| "reproduction_phase attempt (v # vs) rs =
     (case attempt v rs of
        (outcome, rs') \<Rightarrow>
          (case reproduction_phase attempt vs rs' of
             (offspring, rs'') \<Rightarrow>
               ((case outcome of Inr child \<Rightarrow> child # offspring | Inl _ \<Rightarrow> offspring), rs'')))"

text \<open>\<open>advanceTimeStep\<close>: survival phase, then the density snapshot
  \<open>|survivors| / maxPopulation\<close> taken once, then the reproduction phase over the survivors
  with that one density. The new population is the offspring with the survivors, and its
  size is returned.\<close>

definition advanceTimeStep ::
  "(real \<Rightarrow> 'a SimpleVirus_scheme \<Rightarrow> rng \<Rightarrow> (error + 'a SimpleVirus_scheme) \<times> rng)
     \<Rightarrow> ('a SimpleVirus_scheme, 'b) Patient_scheme \<Rightarrow> rng
     \<Rightarrow> int \<times> ('a SimpleVirus_scheme, 'b) Patient_scheme \<times> rng" where
  "advanceTimeStep attempt host rs =
     (case survival_phase (viruses host) rs of
        (survivors, rs1) \<Rightarrow>
          (case reproduction_phase
                  (attempt (real (length survivors) / real_of_int (maxPop host))) survivors rs1 of
             (offspring, rs2) \<Rightarrow>
               (int (length (offspring @ survivors)),
                host\<lparr>viruses := offspring @ survivors\<rparr>, rs2)))"

section \<open>Example particles and hosts\<close>

text \<open>Concrete inputs at which the theorems below are instantiated. Every draw of
  \<open>quarter\<close> is 0.25.\<close>

abbreviation quarter :: rng where
  "quarter \<equiv> sconst (1/4)"

abbreviation fertile :: SimpleVirus where
  "fertile \<equiv> \<lparr>maxBirthProb = 1, clearProb = 0\<rparr>"

abbreviation sterile :: SimpleVirus where
  "sterile \<equiv> \<lparr>maxBirthProb = 0, clearProb = 0\<rparr>"

abbreviation host2 :: "SimpleVirus Patient" where
  "host2 \<equiv> \<lparr>viruses = [fertile, sterile], maxPop = 4\<rparr>"

abbreviation resistantX :: ResistantVirus where
  "resistantX \<equiv> \<lparr>maxBirthProb = 1, clearProb = 0, resistance = [(''x'', True)], mutProb = 0\<rparr>"

abbreviation susceptibleX :: ResistantVirus where
  "susceptibleX \<equiv> \<lparr>maxBirthProb = 1, clearProb = 0, resistance = [(''x'', False)], mutProb = 0\<rparr>"

abbreviation treated2 :: TreatedPatient where
  "treated2 \<equiv> \<lparr>viruses = [resistantX, susceptibleX], maxPop = 4, presDrugs = [''x'']\<rparr>"

section \<open>Random draws\<close>

lemma unit_draws_stl: "unit_draws rs \<Longrightarrow> unit_draws (stl rs)"
  by (auto simp: unit_draws_def dest: stl_sset)

lemma unit_draws_shd: "unit_draws rs \<Longrightarrow> 0 \<le> shd rs \<and> shd rs < 1"
  by (simp add: unit_draws_def shd_sset)

lemma unit_draws_sconst: "unit_draws (sconst x) = (0 \<le> x \<and> x < 1)"
  by (simp add: unit_draws_def)

section \<open>Boundary draws of the probability tests\<close>

text \<open>What does hold at the boundary probabilities: the tests behave as documented on every
  draw but \<open>0.0\<close>.\<close>

lemma doesClear_certain:
  "clearProb v = 1 \<Longrightarrow> unit_draws rs \<Longrightarrow> fst (doesClear v rs) = True"
  using unit_draws_shd[of rs] by (simp add: doesClear_def)

lemma doesClear_never_on_positive_draw:
  "clearProb v = 0 \<Longrightarrow> 0 < shd rs \<Longrightarrow> fst (doesClear v rs) = False"
  by (simp add: doesClear_def)

lemma reproduce_zero_birth_positive_draw:
  "maxBirthProb v = 0 \<Longrightarrow> 0 < shd rs \<Longrightarrow> fst (reproduce v popDensity rs) = Inl NoChildException"
  by (simp add: reproduce_def)

lemma reproduce_full_density_positive_draw:
  assumes "0 \<le> maxBirthProb v" and "1 \<le> popDensity" and "0 < shd rs"
  shows "fst (reproduce v popDensity rs) = Inl NoChildException"
proof -
  have "maxBirthProb v * (1 - popDensity) \<le> 0"
    using assms(1,2) by (simp add: mult_nonneg_nonpos)
  with assms(3) show ?thesis by (simp add: reproduce_def)
qed

text \<open>
  C4. A particle with \<open>clearProb = 0\<close> should never clear and one with \<open>clearProb = 1\<close>
  should always clear, for every draw in \<open>[0,1)\<close>. The source compares with \<open>>=\<close>, so at the
  draw \<open>0.0\<close>, which \<^verbatim>\<open>random.random()\<close> can return, a particle with \<open>clearProb = 0\<close>
  does clear: evaluated here.
\<close>

theorem doesClear_zero_prob_zero_draw:
  "clearProb \<lparr>maxBirthProb = 1, clearProb = 0\<rparr> = 0
   \<and> shd (sconst 0 :: rng) = 0
   \<and> doesClear \<lparr>maxBirthProb = 1, clearProb = 0\<rparr> (sconst 0) = (True, sconst 0)"
  by (simp add: doesClear_def)

text \<open>
  C5. A particle with \<open>maxBirthProb = 0\<close> should never reproduce. With the draw \<open>0.0\<close> the
  test \<open>0 * (1 - popDensity) >= 0.0\<close> succeeds and an offspring is returned.
\<close>

theorem reproduce_zero_birth_zero_draw:
  "maxBirthProb sterile = 0
   \<and> reproduce sterile (1/2) (sconst 0) = (Inr sterile, sconst 0)"
  by (simp add: reproduce_def)

text \<open>
  C6. At a population density of 1 or more no Basic particle should reproduce. At density
  exactly 1 the effective probability is 0, and with the draw \<open>0.0\<close> the test \<open>0 >= 0.0\<close>
  succeeds.
\<close>

theorem reproduce_full_density_zero_draw:
  "maxBirthProb fertile * (1 - 1) = 0
   \<and> reproduce fertile 1 (sconst 0) = (Inr fertile, sconst 0)"
  by (simp add: reproduce_def)

section \<open>Resistance gate and mutation\<close>

lemma resistant_to_all_iff:
  "resistant_to_all res drugs = (\<forall>d \<in> set drugs. map_of res d \<noteq> Some False)"
  by (induction drugs) auto

lemma reproduceR_birth_iff:
  "resistant_to_all (resistance v) drugs \<Longrightarrow>
   (\<exists>child rs'. reproduceR v d drugs rs = (Inr child, rs'))
     = (maxBirthProb v * (1 - d) \<ge> shd rs)"
  by (auto simp: reproduceR_def split: prod.splits)

text \<open>With \<open>mutProb = 1\<close> the test \<open>(1 - mutProb) > draw\<close> of a resistant parent always
  fails and the test \<open>mutProb > draw\<close> of a non-resistant parent always succeeds: every item
  is stored negated.\<close>

lemma new_resistances_toggle:
  "unit_draws rs \<Longrightarrow>
   fst (new_resistances 1 items new_res rs)
     = fold (\<lambda>d. AList.update (fst d) (\<not> snd d)) items new_res"
proof (induction items arbitrary: new_res rs)
  case Nil
  then show ?case by simp
next
  case (Cons d items)
  from Cons.prems have h: "0 \<le> shd rs" "shd rs < 1" and t: "unit_draws (stl rs)"
    using unit_draws_shd unit_draws_stl by auto
  show ?case using h Cons.IH[OF t] by (cases "snd d") simp_all
qed

lemma update_fresh: "k \<notin> fst ` set al \<Longrightarrow> AList.update k v al = al @ [(k, v)]"
  by (induction al) auto

lemma fold_update_distinct:
  "distinct (map fst items) \<Longrightarrow> fst ` set items \<inter> fst ` set acc = {} \<Longrightarrow>
   fold (\<lambda>d. AList.update (fst d) (f d)) items acc = acc @ map (\<lambda>d. (fst d, f d)) items"
proof (induction items arbitrary: acc)
  case Nil
  then show ?case by simp
next
  case (Cons d items)
  have fresh: "fst d \<notin> fst ` set acc" using Cons.prems(2) by auto
  have "fst ` set items \<inter> fst ` set (acc @ [(fst d, f d)]) = {}"
    using Cons.prems by auto
  with Cons.IH[of "acc @ [(fst d, f d)]"] Cons.prems(1) fresh
  show ?case by (simp add: update_fresh)
qed

text \<open>
  C1 (as amended). For a DrugAware particle with \<open>mutProb = 1\<close> whose reproduce call succeeds
  (draws in \<open>[0,1)\<close>, resistance keys unique as in any dict), the offspring's resistance state
  for every drug key of the parent is the negation of the parent's state for that key: a
  resistant parent's offspring is not resistant, a non-resistant parent's offspring is.
\<close>

theorem reproduceR_mutProb_one_negates:
  assumes "mutProb v = 1" and "unit_draws rs" and "distinct (map fst (resistance v))"
    and "reproduceR v popDensity activeDrugs rs = (Inr child, rs')"
  shows "resistance child = map (\<lambda>d. (fst d, \<not> snd d)) (resistance v)
       \<and> (\<forall>d \<in> set (resistance v). isResistantTo child (fst d) = Some (\<not> snd d))"
proof -
  from assms(4) have c: "resistance child
      = fst (new_resistances (mutProb v) (resistance v) [] (stl rs))"
    by (auto simp: reproduceR_def split: if_splits prod.splits)
  have "unit_draws (stl rs)" using assms(2) by (rule unit_draws_stl)
  then have "fst (new_resistances 1 (resistance v) [] (stl rs))
      = fold (\<lambda>d. AList.update (fst d) (\<not> snd d)) (resistance v) []"
    by (rule new_resistances_toggle)
  also have "\<dots> = [] @ map (\<lambda>d. (fst d, \<not> snd d)) (resistance v)"
    using assms(3) by (intro fold_update_distinct) simp_all
  finally have r: "resistance child = map (\<lambda>d. (fst d, \<not> snd d)) (resistance v)"
    using c assms(1) by simp
  have dist: "distinct (map fst (resistance child))"
    using assms(3) by (simp add: r comp_def)
  have "isResistantTo child (fst d) = Some (\<not> snd d)" if "d \<in> set (resistance v)" for d
  proof -
    from that have "(fst d, \<not> snd d) \<in> set (resistance child)" by (auto simp: r)
    with dist show ?thesis by (simp add: isResistantTo_def)
  qed
  with r show ?thesis by blast
qed

theorem reproduceR_mutProb_one_negates_witness:
  "mutProb \<lparr>maxBirthProb = 1, clearProb = 0,
            resistance = [(''a'', True), (''b'', False)], mutProb = 1\<rparr> = 1
   \<and> unit_draws (sconst (1/2))
   \<and> distinct (map fst [(''a'', True), (''b'', False)])
   \<and> reproduceR \<lparr>maxBirthProb = 1, clearProb = 0,
                  resistance = [(''a'', True), (''b'', False)], mutProb = 1\<rparr> 0 [] (sconst (1/2))
       = (Inr \<lparr>maxBirthProb = 1, clearProb = 0,
               resistance = [(''a'', False), (''b'', True)], mutProb = 1\<rparr>, sconst (1/2))
   \<and> isResistantTo \<lparr>maxBirthProb = 1, clearProb = 0,
               resistance = [(''a'', False), (''b'', True)], mutProb = 1\<rparr> ''a'' = Some False
   \<and> isResistantTo \<lparr>maxBirthProb = 1, clearProb = 0,
               resistance = [(''a'', False), (''b'', True)], mutProb = 1\<rparr> ''b'' = Some True"
proof -
  let ?v = "\<lparr>maxBirthProb = 1, clearProb = 0,
            resistance = [(''a'', True), (''b'', False)], mutProb = 1\<rparr>"
  let ?c = "\<lparr>maxBirthProb = 1, clearProb = 0,
            resistance = [(''a'', False), (''b'', True)], mutProb = 1\<rparr>"
  have h1: "mutProb ?v = 1" by simp
  have h2: "unit_draws (sconst (1/2))" by (simp add: unit_draws_def)
  have h3: "distinct (map fst (resistance ?v))" by simp
  have h4: "reproduceR ?v 0 [] (sconst (1/2)) = (Inr ?c, sconst (1/2))"
    by (simp add: reproduceR_def)
  from reproduceR_mutProb_one_negates [OF h1 h2 h3 h4] h1 h2 h3 h4
  show ?thesis by simp
qed

text \<open>The claim as first stated, that with \<open>mutProb = 1\<close> every offspring is resistant to
  every drug, fails for a resistant parent: its offspring loses the resistance.\<close>

theorem reproduceR_mutProb_one_counterexample:
  "mutProb \<lparr>maxBirthProb = 1, clearProb = 0, resistance = [(''a'', True)], mutProb = 1\<rparr> = 1
   \<and> unit_draws (sconst (1/2))
   \<and> reproduceR \<lparr>maxBirthProb = 1, clearProb = 0, resistance = [(''a'', True)], mutProb = 1\<rparr>
         0 [] (sconst (1/2))
       = (Inr \<lparr>maxBirthProb = 1, clearProb = 0, resistance = [(''a'', False)], mutProb = 1\<rparr>,
          sconst (1/2))
   \<and> isResistantTo \<lparr>maxBirthProb = 1, clearProb = 0, resistance = [(''a'', False)], mutProb = 1\<rparr>
         ''a'' = Some False"
  by (simp add: reproduceR_def isResistantTo_def unit_draws_def)

text \<open>
  C2. A DrugAware particle that is not resistant to some drug of the active list should
  never reproduce. By the source's own notion a particle is resistant to a drug when its
  entry is True (\<^verbatim>\<open>isResistantTo\<close>: "True if resistant, False otherwise"; \<^verbatim>\<open>getResistPop\<close>
  counts \<^verbatim>\<open>.get(drug) == True\<close>), and the docstring of \<^verbatim>\<open>reproduce\<close> says that with two
  active drugs a particle resistant to one of them will not reproduce. The gate tests
  \<^verbatim>\<open>.get(drug) == False\<close> instead, so an active drug with no entry in the resistance map
  does not block: a particle resistant to \<open>x\<close> only, with \<open>x\<close> and \<open>y\<close> active,
  reproduces. Evaluated here.
\<close>

theorem reproduceR_unlisted_active_drug_reproduces:
  "isResistantTo resistantX ''x'' = Some True
   \<and> isResistantTo resistantX ''y'' = None
   \<and> reproduceR resistantX 0 [''x'', ''y''] (sconst (1/2)) = (Inr resistantX, sconst (1/2))"
  by (simp add: isResistantTo_def reproduceR_def)

text \<open>What does hold of the gate: a particle whose resistance state for some drug of the
  active list is the entry False never reproduces, \<open>reproduce\<close> raises NoChildException (and
  draws nothing) whatever the population density, the birth probability and the draws.
  With an empty active list the gate passes, and reproduction is decided by the birth test
  alone.\<close>

lemma reproduceR_gated_by_active_drugs:
  "(drug \<in> set activeDrugs \<and> isResistantTo v drug = Some False
      \<longrightarrow> reproduceR v popDensity activeDrugs rs = (Inl NoChildException, rs))
   \<and> resistant_to_all (resistance v) [] = True
   \<and> ((\<exists>child rs'. reproduceR v popDensity [] rs = (Inr child, rs'))
        = (maxBirthProb v * (1 - popDensity) \<ge> shd rs))"
proof -
  have "reproduceR v popDensity activeDrugs rs = (Inl NoChildException, rs)"
    if "drug \<in> set activeDrugs" "isResistantTo v drug = Some False"
  proof -
    from that have "\<not> resistant_to_all (resistance v) activeDrugs"
      by (auto simp: resistant_to_all_iff isResistantTo_def)
    then show ?thesis by (simp add: reproduceR_def)
  qed
  moreover have "(\<exists>child rs'. reproduceR v popDensity [] rs = (Inr child, rs'))
        = (maxBirthProb v * (1 - popDensity) \<ge> shd rs)"
    by (rule reproduceR_birth_iff) simp
  ultimately show ?thesis by simp
qed

text \<open>
  C9. For a drug that is not a key of the particle's resistance map, \<open>isResistantTo\<close>
  returns None, not False, and the gate of \<open>reproduce\<close> does not count the drug: the gate
  passes exactly when no active drug has the entry False, the call behaves as if the drug
  were not in the active list, and with that drug alone active the particle reproduces
  exactly when the birth test succeeds.
\<close>

theorem missing_key_is_none_and_never_blocks:
  assumes "drug \<notin> fst ` set (resistance v)"
  shows "isResistantTo v drug = None
       \<and> resistant_to_all (resistance v) activeDrugs
           = (\<forall>d \<in> set activeDrugs. isResistantTo v d \<noteq> Some False)
       \<and> reproduceR v popDensity activeDrugs rs
           = reproduceR v popDensity (removeAll drug activeDrugs) rs
       \<and> ((\<exists>child rs'. reproduceR v popDensity [drug] rs = (Inr child, rs'))
            = (maxBirthProb v * (1 - popDensity) \<ge> shd rs))"
proof -
  from assms have n: "map_of (resistance v) drug = None"
    by (simp add: map_of_eq_None_iff)
  then have g: "resistant_to_all (resistance v) activeDrugs
           = resistant_to_all (resistance v) (removeAll drug activeDrugs)"
    by (auto simp: resistant_to_all_iff)
  from n have "resistant_to_all (resistance v) [drug]" by simp
  then have b: "(\<exists>child rs'. reproduceR v popDensity [drug] rs = (Inr child, rs'))
            = (maxBirthProb v * (1 - popDensity) \<ge> shd rs)"
    by (rule reproduceR_birth_iff)
  have a: "resistant_to_all (resistance v) activeDrugs
           = (\<forall>d \<in> set activeDrugs. isResistantTo v d \<noteq> Some False)"
    by (simp add: resistant_to_all_iff isResistantTo_def)
  have r: "reproduceR v popDensity activeDrugs rs
           = reproduceR v popDensity (removeAll drug activeDrugs) rs"
    using g by (simp add: reproduceR_def)
  from n a r b show ?thesis by (simp add: isResistantTo_def)
qed

theorem missing_key_is_none_and_never_blocks_witness:
  "''y'' \<notin> fst ` set (resistance resistantX)
   \<and> isResistantTo resistantX ''y'' = None
   \<and> reproduceR resistantX 0 [''y'', ''x''] (sconst (1/2)) = (Inr resistantX, sconst (1/2))
   \<and> reproduceR resistantX 0 [''y''] (sconst (1/2)) = (Inr resistantX, sconst (1/2))"
  using missing_key_is_none_and_never_blocks
    [of "''y''" resistantX "[''y'', ''x'']" 0 "sconst (1/2)"]
  by (simp add: reproduceR_def)

section \<open>The loops of update and the three phases\<close>

lemma surviving_loop_acc:
  "surviving_loop vs acc rs
     = (acc @ fst (survival_phase vs rs), snd (survival_phase vs rs))"
  by (induction vs arbitrary: acc rs) (auto simp: split: prod.splits)

lemma survivors_eq: "fst (surviving_loop vs [] rs) = fst (survival_phase vs rs)"
  by (simp add: surviving_loop_acc)

text \<open>The only exception either \<open>reproduce\<close> raises is NoChildException.\<close>

lemma reproduce_never_other:
  "reproduce v d rs = (Inl e, rs') \<Longrightarrow> e = NoChildException"
  by (auto simp: reproduce_def split: if_splits)

lemma reproduceR_never_other:
  "reproduceR v d drugs rs = (Inl e, rs') \<Longrightarrow> e = NoChildException"
  by (auto simp: reproduceR_def split: if_splits prod.splits)

lemma reproduce_loop_acc:
  "reproduce_loop vs d acc rs
     = (Inr (acc @ fst (reproduction_phase (\<lambda>v. reproduce v d) vs rs)),
        snd (reproduction_phase (\<lambda>v. reproduce v d) vs rs))"
proof (induction vs arbitrary: acc rs)
  case Nil
  then show ?case by simp
next
  case (Cons v vs)
  obtain out rs' where r: "reproduce v d rs = (out, rs')" by (cases "reproduce v d rs")
  show ?case
  proof (cases out)
    case (Inl e)
    with r have "e = NoChildException" using reproduce_never_other by blast
    with r Inl Cons.IH show ?thesis by (simp split: prod.splits)
  next
    case (Inr child)
    with r Cons.IH show ?thesis by (simp split: prod.splits)
  qed
qed

lemma reproduceR_loop_acc:
  "reproduceR_loop vs d drugs acc rs
     = (Inr (acc @ fst (reproduction_phase (\<lambda>v. reproduceR v d drugs) vs rs)),
        snd (reproduction_phase (\<lambda>v. reproduceR v d drugs) vs rs))"
proof (induction vs arbitrary: acc rs)
  case Nil
  then show ?case by simp
next
  case (Cons v vs)
  obtain out rs' where r: "reproduceR v d drugs rs = (out, rs')"
    by (cases "reproduceR v d drugs rs")
  show ?case
  proof (cases out)
    case (Inl e)
    with r have "e = NoChildException" using reproduceR_never_other by blast
    with r Inl Cons.IH show ?thesis by (simp split: prod.splits)
  next
    case (Inr child)
    with r Cons.IH show ?thesis by (simp split: prod.splits)
  qed
qed

lemma reproduction_phase_length:
  "length (fst (reproduction_phase attempt vs rs)) \<le> length vs"
proof (induction vs arbitrary: rs)
  case Nil
  then show ?case by simp
next
  case (Cons v vs)
  obtain out rs' where a: "attempt v rs = (out, rs')" by (cases "attempt v rs")
  obtain offspring rs'' where r: "reproduction_phase attempt vs rs' = (offspring, rs'')"
    by (cases "reproduction_phase attempt vs rs'")
  from Cons.IH[of rs'] r have "length offspring \<le> length vs" by simp
  with a r show ?case by (simp split: sum.splits)
qed

lemma survival_phase_subseq: "subseq (fst (survival_phase vs rs)) vs"
proof (induction vs arbitrary: rs)
  case Nil
  then show ?case by simp
next
  case (Cons v vs)
  obtain cleared rs' where c: "doesClear v rs = (cleared, rs')" by (cases "doesClear v rs")
  obtain survivors rs'' where r: "survival_phase vs rs' = (survivors, rs'')"
    by (cases "survival_phase vs rs'")
  from Cons.IH[of rs'] r have "subseq survivors vs" by simp
  with c r show ?case by auto
qed

lemma update_eq:
  "maxPop p \<noteq> 0 \<Longrightarrow>
   update p rs = (case advanceTimeStep (\<lambda>d v. reproduce v d) p rs of
                    (n, p', rs') \<Rightarrow> (Inr n, p', rs'))"
  by (simp add: update_def advanceTimeStep_def surviving_loop_acc reproduce_loop_acc
           split: prod.splits)

lemma updateT_eq:
  "maxPop p \<noteq> 0 \<Longrightarrow>
   updateT p rs = (case advanceTimeStep (\<lambda>d v. reproduceR v d (presDrugs p)) p rs of
                    (n, p', rs') \<Rightarrow> (Inr n, p', rs'))"
  by (simp add: updateT_def advanceTimeStep_def surviving_loop_acc reproduceR_loop_acc
           split: prod.splits)

lemma update_result:
  assumes "maxPop p \<noteq> 0"
  shows "\<exists>offspring rs'.
           length offspring \<le> length (fst (surviving_loop (viruses p) [] rs))
         \<and> update p rs
             = (Inr (int (length (offspring @ fst (surviving_loop (viruses p) [] rs)))),
                p\<lparr>viruses := offspring @ fst (surviving_loop (viruses p) [] rs)\<rparr>, rs')"
proof -
  obtain s rs1 where s: "survival_phase (viruses p) rs = (s, rs1)"
    by (cases "survival_phase (viruses p) rs")
  let ?d = "real (length s) / real_of_int (maxPop p)"
  obtain off rs2 where r: "reproduction_phase (\<lambda>v. reproduce v ?d) s rs1 = (off, rs2)"
    by (cases "reproduction_phase (\<lambda>v. reproduce v ?d) s rs1")
  have "length off \<le> length s"
    using reproduction_phase_length[of "\<lambda>v. reproduce v ?d" s rs1] r by simp
  moreover have "update p rs = (Inr (int (length (off @ s))), p\<lparr>viruses := off @ s\<rparr>, rs2)"
    using assms s r by (simp add: update_eq advanceTimeStep_def)
  ultimately show ?thesis using s by (auto simp: survivors_eq)
qed

lemma updateT_result:
  assumes "maxPop p \<noteq> 0"
  shows "\<exists>offspring rs'.
           length offspring \<le> length (fst (surviving_loop (viruses p) [] rs))
         \<and> updateT p rs
             = (Inr (int (length (offspring @ fst (surviving_loop (viruses p) [] rs)))),
                p\<lparr>viruses := offspring @ fst (surviving_loop (viruses p) [] rs)\<rparr>, rs')"
proof -
  obtain s rs1 where s: "survival_phase (viruses p) rs = (s, rs1)"
    by (cases "survival_phase (viruses p) rs")
  let ?d = "real (length s) / real_of_int (maxPop p)"
  obtain off rs2
    where r: "reproduction_phase (\<lambda>v. reproduceR v ?d (presDrugs p)) s rs1 = (off, rs2)"
    by (cases "reproduction_phase (\<lambda>v. reproduceR v ?d (presDrugs p)) s rs1")
  have "length off \<le> length s"
    using reproduction_phase_length[of "\<lambda>v. reproduceR v ?d (presDrugs p)" s rs1] r by simp
  moreover have "updateT p rs = (Inr (int (length (off @ s))), p\<lparr>viruses := off @ s\<rparr>, rs2)"
    using assms s r by (simp add: updateT_eq advanceTimeStep_def)
  ultimately show ?thesis using s by (auto simp: survivors_eq)
qed

text \<open>When \<open>maxPop\<close> is 0 the division raises and the patient is left as it was.\<close>

lemma update_zero:
  "maxPop p = 0 \<Longrightarrow> fst (update p rs) = Inl ZeroDivisionError \<and> fst (snd (update p rs)) = p"
  by (simp add: update_def split: prod.splits)

lemma updateT_zero:
  "maxPop p = 0 \<Longrightarrow> fst (updateT p rs) = Inl ZeroDivisionError \<and> fst (snd (updateT p rs)) = p"
  by (simp add: updateT_def split: prod.splits)

section \<open>The time step\<close>

text \<open>
  C3. One call of \<open>update\<close>, of a Patient or of a TreatedPatient with a non-zero
  \<open>maxPop\<close>, is exactly the three-phase step \<^const>\<open>advanceTimeStep\<close>: the survival filter
  over the current particles, one density \<open>|survivors| / maxPop\<close> used by every reproduction
  attempt, one attempt per survivor and none for the offspring; the new population is the
  offspring with the survivors and the returned integer is its size.
\<close>

theorem update_is_three_phase_step:
  assumes "maxPop p \<noteq> 0" and "maxPop tp \<noteq> 0"
  shows "update p rs
           = (case advanceTimeStep (\<lambda>popDensity v. reproduce v popDensity) p rs of
                (n, p', rs') \<Rightarrow> (Inr n, p', rs'))
       \<and> updateT tp rs
           = (case advanceTimeStep (\<lambda>popDensity v. reproduceR v popDensity (presDrugs tp)) tp rs of
                (n, tp', rs') \<Rightarrow> (Inr n, tp', rs'))"
  using assms by (simp add: update_eq updateT_eq)

theorem update_is_three_phase_step_witness:
  "maxPop host2 \<noteq> 0 \<and> maxPop treated2 \<noteq> 0
   \<and> update host2 quarter
       = (Inr 3, \<lparr>viruses = [fertile, fertile, sterile], maxPop = 4\<rparr>, quarter)
   \<and> advanceTimeStep (\<lambda>popDensity v. reproduce v popDensity) host2 quarter
       = (3, \<lparr>viruses = [fertile, fertile, sterile], maxPop = 4\<rparr>, quarter)
   \<and> updateT treated2 quarter
       = (Inr 3, \<lparr>viruses = [resistantX, resistantX, susceptibleX], maxPop = 4,
                  presDrugs = [''x'']\<rparr>, quarter)
   \<and> advanceTimeStep (\<lambda>popDensity v. reproduceR v popDensity [''x'']) treated2 quarter
       = (3, \<lparr>viruses = [resistantX, resistantX, susceptibleX], maxPop = 4,
              presDrugs = [''x'']\<rparr>, quarter)"
  using update_is_three_phase_step [of host2 treated2 quarter]
  by (simp add: advanceTimeStep_def doesClear_def reproduce_def reproduceR_def)

text \<open>
  C7. For every host with a non-zero \<open>maxPop\<close> and every sequence of draws, \<open>update\<close>
  returns the size of the new population, and that size is at most twice the number of
  survivors of the step's survival phase.
\<close>

theorem update_at_most_doubles_survivors:
  assumes "maxPop p \<noteq> 0" and "maxPop tp \<noteq> 0"
  shows "fst (update p rs) = Inr (int (length (viruses (fst (snd (update p rs))))))
       \<and> length (viruses (fst (snd (update p rs))))
           \<le> 2 * length (fst (surviving_loop (viruses p) [] rs))
       \<and> fst (updateT tp rs) = Inr (int (length (viruses (fst (snd (updateT tp rs))))))
       \<and> length (viruses (fst (snd (updateT tp rs))))
           \<le> 2 * length (fst (surviving_loop (viruses tp) [] rs))"
proof -
  from update_result[OF assms(1), of rs] obtain off rs' where
    a: "length off \<le> length (fst (surviving_loop (viruses p) [] rs))"
    and b: "update p rs
             = (Inr (int (length (off @ fst (surviving_loop (viruses p) [] rs)))),
                p\<lparr>viruses := off @ fst (surviving_loop (viruses p) [] rs)\<rparr>, rs')"
    by blast
  from updateT_result[OF assms(2), of rs] obtain offT rsT where
    c: "length offT \<le> length (fst (surviving_loop (viruses tp) [] rs))"
    and d: "updateT tp rs
             = (Inr (int (length (offT @ fst (surviving_loop (viruses tp) [] rs)))),
                tp\<lparr>viruses := offT @ fst (surviving_loop (viruses tp) [] rs)\<rparr>, rsT)"
    by blast
  from a c show ?thesis by (simp add: b d)
qed

theorem update_at_most_doubles_survivors_witness:
  "maxPop host2 \<noteq> 0 \<and> maxPop treated2 \<noteq> 0
   \<and> fst (update host2 quarter) = Inr 3
   \<and> length (fst (surviving_loop (viruses host2) [] quarter)) = 2
   \<and> fst (updateT treated2 quarter) = Inr 3
   \<and> length (fst (surviving_loop (viruses treated2) [] quarter)) = 2"
  using update_at_most_doubles_survivors [of host2 treated2 quarter]
  by (simp add: update_def updateT_def doesClear_def reproduce_def reproduceR_def)

text \<open>
  C8. In the reproduction phase a NoChildException of one particle adds no offspring and
  the loop goes on with the remaining survivors; the loop never ends in an exception.
  So for a host with a non-zero \<open>maxPop\<close> the time step completes with a population size,
  and the survivors are all retained, as the tail of the new population, however many
  attempts fail.
\<close>

theorem no_offspring_never_aborts_step:
  assumes "maxPop p \<noteq> 0" and "maxPop tp \<noteq> 0"
  shows "(reproduce v d rs0 = (Inl NoChildException, rs1)
            \<longrightarrow> reproduce_loop (v # vs) d new_virus rs0 = reproduce_loop vs d new_virus rs1)
       \<and> (reproduceR w d drugs rs0 = (Inl NoChildException, rs1)
            \<longrightarrow> reproduceR_loop (w # ws) d drugs new_virusR rs0
                  = reproduceR_loop ws d drugs new_virusR rs1)
       \<and> (\<exists>offspring. fst (reproduce_loop vs d new_virus rs0) = Inr (new_virus @ offspring))
       \<and> (\<exists>offspring. fst (reproduceR_loop ws d drugs new_virusR rs0)
                          = Inr (new_virusR @ offspring))
       \<and> (\<exists>n. fst (update p rs) = Inr n)
       \<and> suffix (fst (surviving_loop (viruses p) [] rs)) (viruses (fst (snd (update p rs))))
       \<and> (\<exists>n. fst (updateT tp rs) = Inr n)
       \<and> suffix (fst (surviving_loop (viruses tp) [] rs)) (viruses (fst (snd (updateT tp rs))))"
proof -
  from update_result[OF assms(1), of rs] obtain off rs' where
    b: "update p rs
             = (Inr (int (length (off @ fst (surviving_loop (viruses p) [] rs)))),
                p\<lparr>viruses := off @ fst (surviving_loop (viruses p) [] rs)\<rparr>, rs')"
    by blast
  from updateT_result[OF assms(2), of rs] obtain offT rsT where
    d: "updateT tp rs
             = (Inr (int (length (offT @ fst (surviving_loop (viruses tp) [] rs)))),
                tp\<lparr>viruses := offT @ fst (surviving_loop (viruses tp) [] rs)\<rparr>, rsT)"
    by blast
  show ?thesis
    by (simp add: b d reproduce_loop_acc reproduceR_loop_acc suffix_def)
qed

theorem no_offspring_never_aborts_step_witness:
  "maxPop \<lparr>viruses = [sterile, fertile], maxPop = 4\<rparr> \<noteq> 0
   \<and> maxPop \<lparr>viruses = [susceptibleX, resistantX], maxPop = 4, presDrugs = [''x'']\<rparr> \<noteq> 0
   \<and> reproduce sterile (1/2) quarter = (Inl NoChildException, quarter)
   \<and> reproduce_loop [sterile, fertile] (1/2) [] quarter = (Inr [fertile], quarter)
   \<and> reproduceR susceptibleX (1/2) [''x''] quarter = (Inl NoChildException, quarter)
   \<and> reproduceR_loop [susceptibleX, resistantX] (1/2) [''x''] [] quarter
       = (Inr [resistantX], quarter)
   \<and> update \<lparr>viruses = [sterile, fertile], maxPop = 4\<rparr> quarter
       = (Inr 3, \<lparr>viruses = [fertile, sterile, fertile], maxPop = 4\<rparr>, quarter)
   \<and> updateT \<lparr>viruses = [susceptibleX, resistantX], maxPop = 4, presDrugs = [''x'']\<rparr> quarter
       = (Inr 3, \<lparr>viruses = [resistantX, susceptibleX, resistantX], maxPop = 4,
                  presDrugs = [''x'']\<rparr>, quarter)"
  using no_offspring_never_aborts_step
    [of "\<lparr>viruses = [sterile, fertile], maxPop = 4\<rparr>"
        "\<lparr>viruses = [susceptibleX, resistantX], maxPop = 4, presDrugs = [''x'']\<rparr>"
        sterile "1/2" quarter quarter "[fertile]" "[]"
        susceptibleX "[''x'']" "[resistantX]" "[]" quarter]
  by (simp add: update_def updateT_def doesClear_def reproduce_def reproduceR_def)

text \<open>
  C10. \<open>update\<close> changes nothing of the host but its population: the new host is the old one
  with the \<open>viruses\<close> field replaced, so \<open>maxPop\<close> and the treated host's prescriptions are
  as before. The survivors are particles of the old population, unchanged and in their old
  order, and on a completed step (\<open>maxPop\<close> not 0) they are the tail of the new population,
  after the new offspring.
\<close>

theorem update_changes_only_population:
  "fst (snd (update p rs)) = p\<lparr>viruses := viruses (fst (snd (update p rs)))\<rparr>
   \<and> maxPop (fst (snd (update p rs))) = maxPop p
   \<and> fst (snd (updateT tp rs)) = tp\<lparr>viruses := viruses (fst (snd (updateT tp rs)))\<rparr>
   \<and> maxPop (fst (snd (updateT tp rs))) = maxPop tp
   \<and> presDrugs (fst (snd (updateT tp rs))) = presDrugs tp
   \<and> subseq (fst (surviving_loop (viruses p) [] rs)) (viruses p)
   \<and> subseq (fst (surviving_loop (viruses tp) [] rs)) (viruses tp)
   \<and> (maxPop p \<noteq> 0 \<longrightarrow>
        suffix (fst (surviving_loop (viruses p) [] rs)) (viruses (fst (snd (update p rs)))))
   \<and> (maxPop tp \<noteq> 0 \<longrightarrow>
        suffix (fst (surviving_loop (viruses tp) [] rs)) (viruses (fst (snd (updateT tp rs)))))"
proof -
  have f1: "fst (snd (update p rs)) = p\<lparr>viruses := viruses (fst (snd (update p rs)))\<rparr>"
  proof (cases "maxPop p = 0")
    case True
    then show ?thesis by (simp add: update_zero)
  next
    case False
    from update_result[OF False, of rs] show ?thesis by auto
  qed
  have f2: "fst (snd (updateT tp rs)) = tp\<lparr>viruses := viruses (fst (snd (updateT tp rs)))\<rparr>"
  proof (cases "maxPop tp = 0")
    case True
    then show ?thesis by (simp add: updateT_zero)
  next
    case False
    from updateT_result[OF False, of rs] show ?thesis by auto
  qed
  have m1: "maxPop (fst (snd (update p rs))) = maxPop p"
    by (subst f1) simp
  have m2: "maxPop (fst (snd (updateT tp rs))) = maxPop tp"
    by (subst f2) simp
  have m3: "presDrugs (fst (snd (updateT tp rs))) = presDrugs tp"
    by (subst f2) simp
  have s1: "subseq (fst (surviving_loop (viruses p) [] rs)) (viruses p)"
    by (simp add: survivors_eq survival_phase_subseq)
  have s2: "subseq (fst (surviving_loop (viruses tp) [] rs)) (viruses tp)"
    by (simp add: survivors_eq survival_phase_subseq)
  have x1: "suffix (fst (surviving_loop (viruses p) [] rs)) (viruses (fst (snd (update p rs))))"
    if "maxPop p \<noteq> 0"
    using update_result[OF that, of rs] by (auto simp: suffix_def)
  have x2: "suffix (fst (surviving_loop (viruses tp) [] rs)) (viruses (fst (snd (updateT tp rs))))"
    if "maxPop tp \<noteq> 0"
    using updateT_result[OF that, of rs] by (auto simp: suffix_def)
  from f1 f2 m1 m2 m3 s1 s2 x1 x2 show ?thesis by blast
qed

theorem update_changes_only_population_witness:
  "maxPop host2 \<noteq> 0 \<and> maxPop treated2 \<noteq> 0
   \<and> fst (snd (update host2 quarter)) = host2\<lparr>viruses := [fertile, fertile, sterile]\<rparr>
   \<and> fst (snd (updateT treated2 quarter))
       = treated2\<lparr>viruses := [resistantX, resistantX, susceptibleX]\<rparr>
   \<and> presDrugs (fst (snd (updateT treated2 quarter))) = [''x'']
   \<and> fst (surviving_loop (viruses host2) [] quarter) = [fertile, sterile]
   \<and> suffix [fertile, sterile] (viruses (fst (snd (update host2 quarter))))
   \<and> suffix [resistantX, susceptibleX] (viruses (fst (snd (updateT treated2 quarter))))"
  using update_changes_only_population [of host2 quarter treated2]
  by (simp add: update_def updateT_def doesClear_def reproduce_def reproduceR_def)

end
